theory Spec2Isabelle
  imports Complex_Main "HOL-Library.Sublist"
begin

section \<open>State tracker (src/state\_tracker.py)\<close>

text \<open>
  The state document is the dictionary built by \<open>_create_initial_state\<close>: its fixed keys
  become record fields, its two open mappings (\<open>dimensions\<close> and each dimension's
  key/value store) become maps, its two histories become lists. Values stored under a
  dimension key are arbitrary JSON values. A float is a \<open>real\<close>: the tracker only stores
  and returns it.
\<close>

datatype json =
  JNull | JBool bool | JInt int | JFloat real | JStr string
  | JArr "json list" | JObj "(string \<times> json) list"

record current_state =
  state :: string
  genaMode :: bool
  activeCommitments :: int
  lastEvaluation :: string
  ethicalStatus :: string
  evolutionaryStage :: string

record event_entry =
  ev_timestamp :: string
  ev_state :: string
  event :: string
  ethicalCompliance :: bool
  ev_notes :: string

record pattern_entry =
  pe_timestamp :: string
  pe_type :: string
  pe_description :: string
  pe_confidence :: real
  recursiveDepth :: int

record recursive_info =
  depth :: int
  maxDepth :: int
  detectedPatterns :: "json list"

record pattern_store =
  emergent :: "pattern_entry list"
  recursive :: recursive_info

record document =
  version :: string
  stateHistory :: "event_entry list"
  currentState :: current_state
  patterns :: pattern_store
  dimensions :: "string \<rightharpoonup> (string \<rightharpoonup> json)"

text \<open>
  What \<open>open(self.state_file)\<close> finds: no file (\<open>FileNotFoundError\<close>), a file that
  cannot be read or parsed (any other exception of \<open>open\<close> or \<open>json.load\<close>), the text
  \<open>null\<close> (what \<open>json.dump\<close> writes for \<open>None\<close>), or a serialised document.
  \<open>json.dump\<close> followed by \<open>json.load\<close> is the identity on documents of this type, so
  the file holds the document itself.
\<close>

datatype file_state = Missing | Unreadable | StoredNull | Stored document

text \<open>
  How the disk answers \<open>save_state\<close>: the write goes through; \<open>open(..., 'w')\<close> raises
  and the file stays as it was; or \<open>open\<close> has truncated the file and \<open>json.dump\<close>
  raises before the text is complete.
\<close>

datatype write_outcome = WriteOk | OpenFails | DumpFails

datatype error = TypeError

text \<open>
  A tracker object with its surroundings: the attribute \<open>state_data\<close>, the contents of
  the state file, the behaviour of the disk, and the clock. The \<open>n\<close>-th call of
  \<open>datetime.utcnow().isoformat()\<close> returns \<open>clock n\<close>. Output of \<open>print\<close> is not modelled.
\<close>

record tracker =
  state_data :: "document option"
  disk_file :: file_state
  on_write :: write_outcome
  clock :: "nat \<Rightarrow> string"
  clock_reads :: nat

definition utcnow_isoformat :: "tracker \<Rightarrow> string \<times> tracker" where
  "utcnow_isoformat t = (clock t (clock_reads t), t\<lparr>clock_reads := Suc (clock_reads t)\<rparr>)"

definition create_initial_state :: "tracker \<Rightarrow> document \<times> tracker" where
  "create_initial_state t =
     (let (now, t1) = utcnow_isoformat t in
      (\<lparr>version = ''1.0.0'',
        stateHistory = [],
        currentState =
          \<lparr>state = ''initialized'',
           genaMode = True,
           activeCommitments = 5,
           lastEvaluation = now @ ''Z'',
           ethicalStatus = ''compliant'',
           evolutionaryStage = ''genesis''\<rparr>,
        patterns =
          \<lparr>emergent = [],
           recursive = \<lparr>depth = 0, maxDepth = 5, detectedPatterns = []\<rparr>\<rparr>,
        dimensions =
          [''temporal'' \<mapsto> Map.empty,
           ''spatial'' \<mapsto> Map.empty,
           ''conceptual'' \<mapsto> Map.empty,
           ''relational'' \<mapsto> Map.empty,
           ''ethical'' \<mapsto> Map.empty]\<rparr>,
       t1))"

definition load_state :: "tracker \<Rightarrow> bool \<times> tracker" where
  "load_state t =
     (case disk_file t of
        Stored d \<Rightarrow> (True, t\<lparr>state_data := Some d\<rparr>)
      | StoredNull \<Rightarrow> (True, t\<lparr>state_data := None\<rparr>)
      | Missing \<Rightarrow>
          (let (d, t1) = create_initial_state t in (True, t1\<lparr>state_data := Some d\<rparr>))
      | Unreadable \<Rightarrow> (False, t))"

definition save_state :: "tracker \<Rightarrow> bool \<times> tracker" where
  "save_state t =
     (case on_write t of
        OpenFails \<Rightarrow> (False, t)
      | DumpFails \<Rightarrow> (False, t\<lparr>disk_file := Unreadable\<rparr>)
      | WriteOk \<Rightarrow>
          (True, t\<lparr>disk_file := (case state_data t of None \<Rightarrow> StoredNull | Some d \<Rightarrow> Stored d)\<rparr>))"

text \<open>
  The opening lines of every operation: \<open>if not self.state_data: self.load_state()\<close>.
  The result of the load is dropped, as in the source.
\<close>

definition ensure_loaded :: "tracker \<Rightarrow> tracker" where
  "ensure_loaded t = (if state_data t = None then snd (load_state t) else t)"

definition add_state_event :: "string \<Rightarrow> string \<Rightarrow> bool \<Rightarrow> tracker \<Rightarrow> error + bool \<times> tracker" where
  "add_state_event ev nts ethical_compliant t =
     (let t1 = ensure_loaded t;
          (now, t2) = utcnow_isoformat t1
      in case state_data t2 of
           None \<Rightarrow> Inl TypeError
         | Some d \<Rightarrow>
             (let event_entry =
                    \<lparr>ev_timestamp = now @ ''Z'',
                     ev_state = state (currentState d),
                     event = ev,
                     ethicalCompliance = ethical_compliant,
                     ev_notes = nts\<rparr>;
                  d1 = d\<lparr>stateHistory := stateHistory d @ [event_entry]\<rparr>;
                  d2 = d1\<lparr>currentState :=
                          (currentState d1)\<lparr>lastEvaluation := ev_timestamp event_entry\<rparr>\<rparr>
              in Inr (save_state (t2\<lparr>state_data := Some d2\<rparr>))))"

text \<open>
  The arrow of the event message, between two spaces. U+2192 is no 8-bit character; the
  tracker only joins and stores text, and the arrow stands in it as the three bytes of its
  UTF-8 encoding.
\<close>

definition arrow :: string where
  "arrow = '' '' @ [CHR 0xE2, CHR 0x86, CHR 0x92] @ '' ''"

definition update_state :: "string \<Rightarrow> string \<Rightarrow> tracker \<Rightarrow> error + bool \<times> tracker" where
  "update_state new_state reason t =
     (let t1 = ensure_loaded t
      in case state_data t1 of
           None \<Rightarrow> Inl TypeError
         | Some d \<Rightarrow>
             (let old_state = state (currentState d);
                  t2 = t1\<lparr>state_data := Some (d\<lparr>currentState := (currentState d)\<lparr>state := new_state\<rparr>\<rparr>)\<rparr>;
                  ev = ''State transition: '' @ old_state @ arrow @ new_state;
                  ev1 = (if reason \<noteq> [] then ev @ '' ('' @ reason @ '')'' else ev)
              in add_state_event ev1 [] True t2))"

definition detect_pattern :: "string \<Rightarrow> string \<Rightarrow> real \<Rightarrow> tracker \<Rightarrow> error + bool \<times> tracker" where
  "detect_pattern pattern_type description confidence t =
     (let t1 = ensure_loaded t;
          (now, t2) = utcnow_isoformat t1
      in case state_data t2 of
           None \<Rightarrow> Inl TypeError
         | Some d \<Rightarrow>
             (let pattern_entry =
                    \<lparr>pe_timestamp = now @ ''Z'',
                     pe_type = pattern_type,
                     pe_description = description,
                     pe_confidence = confidence,
                     recursiveDepth = depth (recursive (patterns d))\<rparr>;
                  d1 = d\<lparr>patterns := (patterns d)\<lparr>emergent := emergent (patterns d) @ [pattern_entry]\<rparr>\<rparr>
              in Inr (save_state (t2\<lparr>state_data := Some d1\<rparr>))))"

definition increase_recursive_depth :: "tracker \<Rightarrow> error + bool \<times> tracker" where
  "increase_recursive_depth t =
     (let t1 = ensure_loaded t
      in case state_data t1 of
           None \<Rightarrow> Inl TypeError
         | Some d \<Rightarrow>
             (let current_depth = depth (recursive (patterns d));
                  max_depth = maxDepth (recursive (patterns d))
              in if current_depth < max_depth then
                   Inr (save_state (t1\<lparr>state_data := Some (d\<lparr>patterns := (patterns d)\<lparr>recursive :=
                     (recursive (patterns d))\<lparr>depth := current_depth + 1\<rparr>\<rparr>\<rparr>)\<rparr>))
                 else Inr (False, t1)))"

definition update_dimension :: "string \<Rightarrow> string \<Rightarrow> json \<Rightarrow> tracker \<Rightarrow> error + bool \<times> tracker" where
  "update_dimension dimension key val t =
     (let t1 = ensure_loaded t
      in case state_data t1 of
           None \<Rightarrow> Inl TypeError
         | Some d \<Rightarrow>
             (case dimensions d dimension of
                None \<Rightarrow> Inr (False, t1)
              | Some m \<Rightarrow>
                  Inr (save_state (t1\<lparr>state_data := Some (d\<lparr>dimensions :=
                    (dimensions d)(dimension \<mapsto> m(key \<mapsto> val))\<rparr>)\<rparr>))))"

text \<open>\<open>StateTracker()\<close>: nothing is loaded yet.\<close>

definition new_tracker :: "file_state \<Rightarrow> write_outcome \<Rightarrow> (nat \<Rightarrow> string) \<Rightarrow> tracker" where
  "new_tracker f w c =
     \<lparr>state_data = None, disk_file = f, on_write = w, clock = c, clock_reads = 0\<rparr>"

text \<open>Calling \<open>increase_recursive_depth\<close> \<open>n\<close> times in a row, collecting the return values.\<close>

fun increase_n :: "nat \<Rightarrow> tracker \<Rightarrow> error + bool list \<times> tracker" where
  "increase_n 0 t = Inr ([], t)"
| "increase_n (Suc n) t =
     (case increase_recursive_depth t of
        Inl e \<Rightarrow> Inl e
      | Inr (ok, t1) \<Rightarrow>
          (case increase_n n t1 of
             Inl e \<Rightarrow> Inl e
           | Inr (oks, t2) \<Rightarrow> Inr (ok # oks, t2)))"

text \<open>
  An operation's outcome keeps the histories of document \<open>d\<close>: it returns, a document
  is in memory, and the entries of \<open>d\<close> are an initial segment of its entries.
\<close>

definition keeps_entries :: "document \<Rightarrow> error + bool \<times> tracker \<Rightarrow> bool" where
  "keeps_entries d r =
     (case r of
        Inl e \<Rightarrow> False
      | Inr (ok, t1) \<Rightarrow>
          (case state_data t1 of
             None \<Rightarrow> False
           | Some d1 \<Rightarrow>
               prefix (stateHistory d) (stateHistory d1) \<and>
               prefix (emergent (patterns d)) (emergent (patterns d1))))"

text \<open>
  What a call leaves behind: the value it returns, and the document in memory; \<open>None\<close>
  when the call raises (and, for the document, when none is loaded).
\<close>

definition returned :: "error + bool \<times> tracker \<Rightarrow> bool option" where
  "returned r = (case r of Inl e \<Rightarrow> None | Inr (ok, t1) \<Rightarrow> Some ok)"

definition document_after :: "error + bool \<times> tracker \<Rightarrow> document option" where
  "document_after r = (case r of Inl e \<Rightarrow> None | Inr (ok, t1) \<Rightarrow> state_data t1)"

section \<open>Pattern analyzer (src/pattern\_analyzer.py)\<close>

subsection \<open>The string operations of Python the analyzer uses\<close>

text \<open>
  The analyzer's text is a \<open>string\<close> of code points: a \<open>char\<close> is one code point
  below 256, so \<open>length\<close> is Python's \<open>len\<close>, and the operations below are Python's
  on such text. Text with a code point from 256 on is outside the model, as are the
  interpreter's limits (recursion depth, the digit limit of \<open>int\<close>).
\<close>

text \<open>\<open>c.isspace()\<close>, the whitespace of \<open>split()\<close> and \<open>strip()\<close>.\<close>

definition py_isspace :: "char \<Rightarrow> bool" where
  "py_isspace c =
     (c \<in> set [CHR 0x09, CHR 0x0A, CHR 0x0B, CHR 0x0C, CHR 0x0D,
               CHR 0x1C, CHR 0x1D, CHR 0x1E, CHR 0x1F, CHR 0x20, CHR 0x85, CHR 0xA0])"

definition strip :: "string \<Rightarrow> string" where
  "strip s = rev (dropWhile py_isspace (rev (dropWhile py_isspace s)))"

text \<open>\<open>s.split(sep)\<close> for a one-character separator: the pieces between separators.\<close>

fun split_where :: "(char \<Rightarrow> bool) \<Rightarrow> string \<Rightarrow> string list" where
  "split_where P [] = [[]]"
| "split_where P (c # cs) =
     (if P c then [] # split_where P cs
      else (case split_where P cs of
              [] \<Rightarrow> [[c]]
            | w # ws \<Rightarrow> (c # w) # ws))"

definition split_on :: "char \<Rightarrow> string \<Rightarrow> string list" where
  "split_on sep s = split_where (\<lambda>c. c = sep) s"

text \<open>\<open>s.split()\<close>: the maximal runs of characters that are not whitespace.\<close>

definition py_split :: "string \<Rightarrow> string list" where
  "py_split s = filter (\<lambda>w. w \<noteq> []) (split_where py_isspace s)"

text \<open>
  \<open>c.lower()\<close>: the letters \<open>A\<close> to \<open>Z\<close> and the capital letters from U+00C0 to U+00DE
  (U+00D7, the multiplication sign, is none) move up by 32; nothing else changes.
\<close>

definition lower_char :: "char \<Rightarrow> char" where
  "lower_char c =
     (let n = (of_char c :: nat)
      in if (65 \<le> n \<and> n \<le> 90) \<or> (192 \<le> n \<and> n \<le> 222 \<and> n \<noteq> 215)
         then char_of (n + 32) else c)"

definition lower :: "string \<Rightarrow> string" where
  "lower s = map lower_char s"

fun join :: "string \<Rightarrow> string list \<Rightarrow> string" where
  "join sep [] = []"
| "join sep [w] = w"
| "join sep (w # ws) = w @ sep @ join sep ws"

text \<open>\<open>s.rsplit(sep, 1)[0]\<close>: the text before the last separator, all of it when there is none.\<close>

definition rsplit1_head :: "char \<Rightarrow> string \<Rightarrow> string" where
  "rsplit1_head sep s =
     (if sep \<in> set s then rev (tl (dropWhile (\<lambda>c. c \<noteq> sep) (rev s))) else s)"

text \<open>\<open>str(n)\<close> for a length.\<close>

fun str_nat :: "nat \<Rightarrow> string" where
  "str_nat n =
     (if n < 10 then [''0123456789'' ! n]
      else str_nat (n div 10) @ [''0123456789'' ! (n mod 10)])"

declare str_nat.simps [simp del]

definition is_digit :: "char \<Rightarrow> bool" where
  "is_digit c = (c \<in> set ''0123456789'')"

definition digit_value :: "char \<Rightarrow> int" where
  "digit_value c =
     (case map_of (zip ''0123456789'' [0, 1, 2, 3, 4, 5, 6, 7, 8, 9]) c of
        None \<Rightarrow> 0
      | Some v \<Rightarrow> v)"

definition digits_value :: "string \<Rightarrow> int" where
  "digits_value s = foldl (\<lambda>acc c. 10 * acc + digit_value c) 0 s"

text \<open>
  \<open>int(s)\<close>: surrounding whitespace, an optional sign, then digits, where single
  underscores may stand between digits. \<open>None\<close> is \<open>ValueError\<close>. The whitespace
  \<open>int\<close> passes over is narrower than that of \<open>strip()\<close>: the separators U+001C to
  U+001F are not part of it.
\<close>

definition int_space :: "char \<Rightarrow> bool" where
  "int_space c =
     (c \<in> set [CHR 0x09, CHR 0x0A, CHR 0x0B, CHR 0x0C, CHR 0x0D, CHR 0x20, CHR 0x85, CHR 0xA0])"

definition py_int :: "string \<Rightarrow> int option" where
  "py_int s =
     (let u = rev (dropWhile int_space (rev (dropWhile int_space s)));
          neg = (u \<noteq> [] \<and> hd u = CHR ''-'');
          body = (if u \<noteq> [] \<and> (hd u = CHR ''-'' \<or> hd u = CHR ''+'') then tl u else u);
          groups = split_on CHR ''_'' body
      in if list_all (\<lambda>g. g \<noteq> [] \<and> list_all is_digit g) groups
         then Some ((if neg then - 1 else 1) * digits_value (concat groups))
         else None)"

text \<open>\<open>repr\<close> of a \<open>str\<close> and of a \<open>dict\<close> from \<open>str\<close> to \<open>int\<close>, in insertion order.\<close>

definition hex2 :: "nat \<Rightarrow> string" where
  "hex2 n = [''0123456789abcdef'' ! (n div 16 mod 16), ''0123456789abcdef'' ! (n mod 16)]"

definition repr_char :: "char \<Rightarrow> char \<Rightarrow> string" where
  "repr_char q c =
     (if c = q \<or> c = CHR 0x5C then [CHR 0x5C, c]
      else if c = CHR 0x09 then [CHR 0x5C, CHR ''t'']
      else if c = CHR 0x0A then [CHR 0x5C, CHR ''n'']
      else if c = CHR 0x0D then [CHR 0x5C, CHR ''r'']
      else if (of_char c :: nat) < 32 \<or>
              (127 \<le> (of_char c :: nat) \<and> (of_char c :: nat) \<le> 160) \<or>
              (of_char c :: nat) = 173
        then [CHR 0x5C, CHR ''x''] @ hex2 (of_char c)
      else [c])"

definition repr_str :: "string \<Rightarrow> string" where
  "repr_str s =
     (let q = (if CHR 0x27 \<in> set s \<and> CHR 0x22 \<notin> set s then CHR 0x22 else CHR 0x27)
      in [q] @ concat (map (repr_char q) s) @ [q])"

definition repr_dict :: "(string \<times> nat) list \<Rightarrow> string" where
  "repr_dict kvs = ''{'' @ join '', '' (map (\<lambda>(k, v). repr_str k @ '': '' @ str_nat v) kvs) @ ''}''"

subsection \<open>Records and surroundings\<close>

record pattern =
  p_type :: string
  p_description :: string
  p_depth :: int
  p_confidence :: real

record commit =
  hash :: string
  author :: string
  email :: string
  c_timestamp :: int
  message :: string

text \<open>
  \<open>open(gfile, 'r')\<close>: the file opens, \<open>FileNotFoundError\<close>, or another exception.
\<close>

datatype open_result = Opened | NotFound | OpenError

text \<open>
  The repository as the analyzer sees it: the standard output of each of its three
  \<open>git\<close> calls (\<open>None\<close> when \<open>subprocess.run\<close> raises), and what opening a file by name
  gives. Every call of the same query returns the same text.
\<close>

record repo =
  git_log :: "string option"
  git_ls_files :: "string option"
  git_ls_files_md :: "string option"
  open_file :: "string \<Rightarrow> open_result"

subsection \<open>Commit patterns\<close>

text \<open>
  The loop over the lines of \<open>git log\<close>. \<open>None\<close> is the \<open>ValueError\<close> of
  \<open>int(parts[3])\<close>, which ends the whole family at that level.
\<close>

fun parse_commits :: "string list \<Rightarrow> commit list option" where
  "parse_commits [] = Some []"
| "parse_commits (line # ls) =
     (if line \<noteq> [] then
        (let parts = split_on CHR ''|'' line in
         if length parts \<ge> 5 then
           (case py_int (parts ! 3) of
              None \<Rightarrow> None
            | Some ts \<Rightarrow>
                map_option
                  (\<lambda>cs. \<lparr>hash = parts ! 0, author = parts ! 1, email = parts ! 2,
                          c_timestamp = ts, message = parts ! 4\<rparr> # cs)
                  (parse_commits ls))
         else parse_commits ls)
      else parse_commits ls)"

text \<open>
  \<open>defaultdict(int)\<close> as an association list in insertion order: \<open>d[w] += 1\<close>.
\<close>

fun bump :: "string \<Rightarrow> (string \<times> nat) list \<Rightarrow> (string \<times> nat) list" where
  "bump w [] = [(w, 1)]"
| "bump w ((k, v) # kvs) = (if k = w then (k, v + 1) # kvs else (k, v) # bump w kvs)"

definition count_message_keywords :: "commit list \<Rightarrow> (string \<times> nat) list" where
  "count_message_keywords commits =
     foldl (\<lambda>message_keywords c.
              foldl (\<lambda>kw word. if length word > 3 then bump word kw else kw)
                message_keywords (py_split (lower (message c))))
       [] commits"

text \<open>
  \<open>sorted(items, key=lambda x: x[1], reverse=True)\<close>: by count, largest first; the sort
  is stable, so equal counts stay in insertion order.
\<close>

fun insert_desc :: "string \<times> nat \<Rightarrow> (string \<times> nat) list \<Rightarrow> (string \<times> nat) list" where
  "insert_desc x [] = [x]"
| "insert_desc x (y # ys) = (if snd y > snd x then y # insert_desc x ys else x # y # ys)"

definition sorted_desc :: "(string \<times> nat) list \<Rightarrow> (string \<times> nat) list" where
  "sorted_desc kvs = foldr insert_desc kvs []"

definition top_keywords :: "commit list \<Rightarrow> (string \<times> nat) list" where
  "top_keywords commits = take 5 (sorted_desc (count_message_keywords commits))"

text \<open>The patterns one level derives from the parsed commits.\<close>

definition commit_level_patterns :: "commit list \<Rightarrow> int \<Rightarrow> pattern list" where
  "commit_level_patterns commits d =
     (if length commits > 1 then
        [\<lparr>p_type = ''commit_frequency'',
          p_description = ''Repository has '' @ str_nat (length commits) @ '' commits'',
          p_depth = d, p_confidence = 1\<rparr>]
      else []) @
     (let authors = remdups (map author commits) in
      if length authors > 0 then
        [\<lparr>p_type = ''author_diversity'',
          p_description = str_nat (length authors) @ '' unique author(s) detected'',
          p_depth = d, p_confidence = 1\<rparr>]
      else []) @
     (if count_message_keywords commits \<noteq> [] then
        [\<lparr>p_type = ''message_patterns'',
          p_description = ''Top keywords: '' @ join '', '' (map fst (top_keywords commits)),
          p_depth = d, p_confidence = 8 / 10\<rparr>]
      else [])"

definition output_lines :: "string \<Rightarrow> string list" where
  "output_lines out = split_on CHR 0x0A (strip out)"

function analyze_commit_patterns :: "repo \<Rightarrow> int \<Rightarrow> int \<Rightarrow> pattern list" where
  "analyze_commit_patterns r max_depth d =
     (if d \<ge> max_depth then []
      else
        (case git_log r of
           None \<Rightarrow> []
         | Some out \<Rightarrow>
             (case parse_commits (output_lines out) of
                None \<Rightarrow> []
              | Some commits \<Rightarrow>
                  commit_level_patterns commits d @
                  (if d < max_depth - 1 then analyze_commit_patterns r max_depth (d + 1)
                   else []))))"
  by pat_completeness auto
termination
  by (relation "measure (\<lambda>(r, max_depth, d). nat (max_depth - d))") auto

declare analyze_commit_patterns.simps [simp del]

subsection \<open>File patterns\<close>

definition count_file_types :: "string list \<Rightarrow> (string \<times> nat) list" where
  "count_file_types files =
     foldl (\<lambda>file_types file.
              if CHR ''.'' \<in> set file then bump (last (split_on CHR ''.'' file)) file_types
              else file_types)
       [] files"

definition collect_directories :: "string list \<Rightarrow> string list" where
  "collect_directories files =
     remdups (map (rsplit1_head CHR ''/'') (filter (\<lambda>file. CHR ''/'' \<in> set file) files))"

definition analyze_file_patterns :: "repo \<Rightarrow> int \<Rightarrow> int \<Rightarrow> pattern list" where
  "analyze_file_patterns r max_depth d =
     (if d \<ge> max_depth then []
      else
        (case git_ls_files r of
           None \<Rightarrow> []
         | Some out \<Rightarrow>
             (let files = filter (\<lambda>f. f \<noteq> []) (output_lines out);
                  file_types = count_file_types files;
                  directories = collect_directories files
              in (if file_types \<noteq> [] then
                    [\<lparr>p_type = ''file_types'',
                      p_description = ''File types: '' @ repr_dict file_types,
                      p_depth = d, p_confidence = 1\<rparr>]
                  else []) @
                 (if directories \<noteq> [] then
                    [\<lparr>p_type = ''directory_structure'',
                      p_description = str_nat (length directories) @ '' directories detected'',
                      p_depth = d, p_confidence = 1\<rparr>]
                  else []))))"

subsection \<open>Ethical patterns\<close>

text \<open>
  The loop over the genesis files: a file that opens gives a pattern, a missing one is
  passed over, any other exception leaves the loop with the patterns found so far.
\<close>

fun genesis_scan :: "repo \<Rightarrow> string list \<Rightarrow> pattern list" where
  "genesis_scan r [] = []"
| "genesis_scan r (gfile # gfiles) =
     (case open_file r gfile of
        Opened \<Rightarrow>
          \<lparr>p_type = ''ethical_framework'',
           p_description = ''Genesis framework file found: '' @ gfile,
           p_depth = 0, p_confidence = 1\<rparr> # genesis_scan r gfiles
      | NotFound \<Rightarrow> genesis_scan r gfiles
      | OpenError \<Rightarrow> [])"

definition analyze_ethical_patterns :: "repo \<Rightarrow> pattern list" where
  "analyze_ethical_patterns r =
     (case git_ls_files_md r of
        None \<Rightarrow> []
      | Some out \<Rightarrow>
          (let docs = filter (\<lambda>f. f \<noteq> []) (output_lines out)
           in (if docs \<noteq> [] then
                 [\<lparr>p_type = ''ethical_documentation'',
                   p_description = ''Documentation files present: '' @ str_nat (length docs),
                   p_depth = 0, p_confidence = 9 / 10\<rparr>]
               else []) @
              genesis_scan r [''genesis.json'', ''GENESIS.md'']))"

definition analyze_all :: "repo \<Rightarrow> int \<Rightarrow> pattern list" where
  "analyze_all r max_depth =
     analyze_commit_patterns r max_depth 0 @
     analyze_file_patterns r max_depth 0 @
     analyze_ethical_patterns r"

section \<open>Sample surroundings\<close>

text \<open>A clock whose \<open>n\<close>-th reading differs from every other one.\<close>

definition sample_clock :: "nat \<Rightarrow> string" where
  "sample_clock n = ''2024-01-01T00:00:00.'' @ str_nat n"

text \<open>A tracker just built, in a directory with no state file and a disk that works.\<close>

definition fresh_tracker :: tracker where
  "fresh_tracker = new_tracker Missing WriteOk sample_clock"

text \<open>The document \<open>load_state\<close> makes for \<open>fresh_tracker\<close>.\<close>

definition initial_document :: document where
  "initial_document = fst (create_initial_state fresh_tracker)"

text \<open>
  A state file written by hand or by a later version: the initial document with one more
  dimension, \<open>custom\<close>.
\<close>

definition extended_document :: document where
  "extended_document =
     initial_document\<lparr>dimensions := (dimensions initial_document)(''custom'' \<mapsto> Map.empty)\<rparr>"

text \<open>
  A state file that has been in use: two events in the history, one emergent pattern,
  state \<open>active\<close>, depth \<open>1\<close>.
\<close>

definition seasoned_document :: document where
  "seasoned_document =
     initial_document
       \<lparr>stateHistory :=
          [\<lparr>ev_timestamp = ''2024-01-01T00:00:00.1Z'', ev_state = ''initialized'',
            event = ''created'', ethicalCompliance = True, ev_notes = ''first run''\<rparr>,
           \<lparr>ev_timestamp = ''2024-01-01T00:00:00.2Z'', ev_state = ''active'',
            event = ''State transition: initialized'' @ arrow @ ''active'',
            ethicalCompliance = True, ev_notes = []\<rparr>],
        currentState := (currentState initial_document)\<lparr>state := ''active''\<rparr>,
        patterns :=
          \<lparr>emergent =
             [\<lparr>pe_timestamp = ''2024-01-01T00:00:00.3Z'', pe_type = ''growth'',
               pe_description = ''more files'', pe_confidence = 1 / 2, recursiveDepth = 0\<rparr>],
           recursive = \<lparr>depth = 1, maxDepth = 5, detectedPatterns = []\<rparr>\<rparr>\<rparr>"

definition seasoned_tracker :: tracker where
  "seasoned_tracker = new_tracker (Stored seasoned_document) WriteOk sample_clock"

text \<open>The names \<open>_create_initial_state\<close> gives the dimensions.\<close>

definition predeclared_dimensions :: "string set" where
  "predeclared_dimensions =
     {''temporal'', ''spatial'', ''conceptual'', ''relational'', ''ethical''}"

text \<open>
  A repository with four commits by two authors; \<open>git log\<close> prints one line for each.
\<close>

definition scenario_log :: string where
  "scenario_log =
     ''a1|alice|alice@example.org|1700000004|fix bug now'' @ [CHR 0x0A] @
     ''b2|bob|bob@example.org|1700000003|add feature now'' @ [CHR 0x0A] @
     ''c3|alice|alice@example.org|1700000002|now refine logic'' @ [CHR 0x0A] @
     ''d4|bob|bob@example.org|1700000001|now cleanup'' @ [CHR 0x0A]"

definition scenario_commits :: "commit list" where
  "scenario_commits =
     [\<lparr>hash = ''a1'', author = ''alice'', email = ''alice@example.org'',
       c_timestamp = 1700000004, message = ''fix bug now''\<rparr>,
      \<lparr>hash = ''b2'', author = ''bob'', email = ''bob@example.org'',
       c_timestamp = 1700000003, message = ''add feature now''\<rparr>,
      \<lparr>hash = ''c3'', author = ''alice'', email = ''alice@example.org'',
       c_timestamp = 1700000002, message = ''now refine logic''\<rparr>,
      \<lparr>hash = ''d4'', author = ''bob'', email = ''bob@example.org'',
       c_timestamp = 1700000001, message = ''now cleanup''\<rparr>]"

definition scenario_repo :: repo where
  "scenario_repo =
     \<lparr>git_log = Some scenario_log,
      git_ls_files = Some (''README.md'' @ [CHR 0x0A] @ ''src/state_tracker.py'' @ [CHR 0x0A]),
      git_ls_files_md = Some (''README.md'' @ [CHR 0x0A]),
      open_file = (\<lambda>f. if f = ''genesis.json'' then Opened else NotFound)\<rparr>"

section \<open>Properties of the state tracker\<close>

subsection \<open>What saving and the implicit load do\<close>

lemma save_state_fst: "fst (save_state t) = (on_write t = WriteOk)"
  by (simp add: save_state_def split: write_outcome.split)

lemma save_state_state_data: "state_data (snd (save_state t)) = state_data t"
  by (simp add: save_state_def split: write_outcome.split)

lemma save_state_on_write: "on_write (snd (save_state t)) = on_write t"
  by (simp add: save_state_def split: write_outcome.split)

lemma ensure_loaded_loaded: "state_data t = Some d \<Longrightarrow> ensure_loaded t = t"
  by (simp add: ensure_loaded_def)

lemma ensure_loaded_disk_file: "disk_file (ensure_loaded t) = disk_file t"
  by (simp add: ensure_loaded_def load_state_def create_initial_state_def utcnow_isoformat_def
      split: file_state.split)

lemma ensure_loaded_on_write: "on_write (ensure_loaded t) = on_write t"
  by (simp add: ensure_loaded_def load_state_def create_initial_state_def utcnow_isoformat_def
      split: file_state.split)

lemma add_state_event_loaded:
  assumes "state_data (ensure_loaded t) = Some d"
  shows "add_state_event ev nts c t =
    Inr (save_state ((ensure_loaded t)
      \<lparr>clock_reads := Suc (clock_reads (ensure_loaded t)),
       state_data := Some (d\<lparr>stateHistory := stateHistory d @
          [\<lparr>ev_timestamp = clock (ensure_loaded t) (clock_reads (ensure_loaded t)) @ ''Z'',
            ev_state = state (currentState d), event = ev, ethicalCompliance = c, ev_notes = nts\<rparr>],
          currentState := (currentState d)\<lparr>lastEvaluation :=
            clock (ensure_loaded t) (clock_reads (ensure_loaded t)) @ ''Z''\<rparr>\<rparr>)\<rparr>))"
  using assms by (simp add: add_state_event_def utcnow_isoformat_def Let_def)

lemma update_state_loaded:
  assumes "state_data (ensure_loaded t) = Some d"
  shows "update_state new_state reason t =
    add_state_event
      (''State transition: '' @ state (currentState d) @ arrow @ new_state @
         (if reason \<noteq> [] then '' ('' @ reason @ '')'' else []))
      [] True
      ((ensure_loaded t)\<lparr>state_data := Some (d\<lparr>currentState := (currentState d)\<lparr>state := new_state\<rparr>\<rparr>)\<rparr>)"
  using assms by (simp add: update_state_def Let_def)

lemma returns_pair:
  "P (fst p) (snd p) \<Longrightarrow> \<exists>ok t1. (Inr p :: error + bool \<times> tracker) = Inr (ok, t1) \<and> P ok t1"
  by (cases p) simp

text \<open>
  Claim C1, as the code has it. On any document the tracker works on, \<open>update_state\<close>
  returns and appends exactly one entry to \<open>stateHistory\<close>. The entry is stamped by
  \<open>add_state_event\<close> after \<open>currentState.state\<close> was overwritten, so its \<open>state\<close>
  field is \<open>new_state\<close>; the previous state appears only inside the event message.
  Afterwards \<open>currentState.state\<close> is \<open>new_state\<close>.
\<close>

theorem update_state_appends_one_entry:
  assumes "state_data (ensure_loaded t) = Some d"
  shows "\<exists>ok t1. update_state new_state reason t = Inr (ok, t1) \<and>
           (\<exists>d1 e. state_data t1 = Some d1 \<and>
              stateHistory d1 = stateHistory d @ [e] \<and>
              ev_state e = new_state \<and>
              event e = ''State transition: '' @ state (currentState d) @ arrow @ new_state @
                (if reason \<noteq> [] then '' ('' @ reason @ '')'' else []) \<and>
              state (currentState d1) = new_state)"
proof -
  let ?t2 = "(ensure_loaded t)\<lparr>state_data := Some (d\<lparr>currentState := (currentState d)\<lparr>state := new_state\<rparr>\<rparr>)\<rparr>"
  have l: "state_data (ensure_loaded ?t2) = Some (d\<lparr>currentState := (currentState d)\<lparr>state := new_state\<rparr>\<rparr>)"
    by (simp add: ensure_loaded_def)
  show ?thesis
    unfolding update_state_loaded [OF assms] add_state_event_loaded [OF l]
    by (rule returns_pair) (simp add: save_state_state_data)
qed


lemma save_state_disk_file:
  "disk_file (snd (save_state t)) =
     (case on_write t of
        WriteOk \<Rightarrow> (case state_data t of None \<Rightarrow> StoredNull | Some d \<Rightarrow> Stored d)
      | OpenFails \<Rightarrow> disk_file t
      | DumpFails \<Rightarrow> Unreadable)"
  by (simp add: save_state_def split: write_outcome.split)

text \<open>
  Claim C9. A transition to the state the document is already in is no special case: one
  entry is appended, its message names the same state on both sides of the arrow, and
  \<open>save_state\<close> runs: the call returns what the write returns, and the file is the new
  document whenever the write goes through.
\<close>

theorem update_state_same_state:
  assumes "state_data (ensure_loaded t) = Some d" and "state (currentState d) = s"
  shows "\<exists>ok t1. update_state s reason t = Inr (ok, t1) \<and>
           ok = (on_write t = WriteOk) \<and>
           (\<exists>d1 e. state_data t1 = Some d1 \<and>
              stateHistory d1 = stateHistory d @ [e] \<and>
              event e = ''State transition: '' @ s @ arrow @ s @
                (if reason \<noteq> [] then '' ('' @ reason @ '')'' else []) \<and>
              state (currentState d1) = s \<and>
              disk_file t1 =
                (case on_write t of
                   WriteOk \<Rightarrow> Stored d1
                 | OpenFails \<Rightarrow> disk_file t
                 | DumpFails \<Rightarrow> Unreadable))"
proof -
  let ?t2 = "(ensure_loaded t)\<lparr>state_data := Some (d\<lparr>currentState := (currentState d)\<lparr>state := s\<rparr>\<rparr>)\<rparr>"
  have l: "state_data (ensure_loaded ?t2) = Some (d\<lparr>currentState := (currentState d)\<lparr>state := s\<rparr>\<rparr>)"
    by (simp add: ensure_loaded_def)
  have e: "ensure_loaded ?t2 = ?t2"
    by (simp add: ensure_loaded_def)
  show ?thesis
    unfolding update_state_loaded [OF assms(1)] add_state_event_loaded [OF l] e
    using assms(2)
    by (intro returns_pair)
      (simp add: save_state_state_data save_state_fst save_state_disk_file
        ensure_loaded_on_write ensure_loaded_disk_file split: write_outcome.split)
qed

lemma detect_pattern_loaded:
  assumes "state_data (ensure_loaded t) = Some d"
  shows "detect_pattern ty ds c t =
    Inr (save_state ((ensure_loaded t)
      \<lparr>clock_reads := Suc (clock_reads (ensure_loaded t)),
       state_data := Some (d\<lparr>patterns := (patterns d)\<lparr>emergent := emergent (patterns d) @
          [\<lparr>pe_timestamp = clock (ensure_loaded t) (clock_reads (ensure_loaded t)) @ ''Z'',
            pe_type = ty, pe_description = ds, pe_confidence = c,
            recursiveDepth = depth (recursive (patterns d))\<rparr>]\<rparr>\<rparr>)\<rparr>))"
  using assms by (simp add: detect_pattern_def utcnow_isoformat_def Let_def)

text \<open>
  Claim C10. \<open>detect_pattern\<close> never looks at \<open>confidence\<close>: for every real number it
  appends one entry to \<open>patterns.emergent\<close> carrying that number, and returns exactly
  what the write returns.
\<close>

theorem detect_pattern_any_confidence:
  assumes "state_data (ensure_loaded t) = Some d"
  shows "\<exists>ok t1. detect_pattern pattern_type description confidence t = Inr (ok, t1) \<and>
           ok = (on_write t = WriteOk) \<and>
           (\<exists>d1 e. state_data t1 = Some d1 \<and>
              emergent (patterns d1) = emergent (patterns d) @ [e] \<and>
              pe_confidence e = confidence \<and>
              pe_type e = pattern_type \<and>
              pe_description e = description \<and>
              recursiveDepth e = depth (recursive (patterns d)))"
  unfolding detect_pattern_loaded [OF assms]
  by (intro returns_pair)
    (simp add: save_state_state_data save_state_fst ensure_loaded_on_write)

lemma increase_below:
  assumes "state_data (ensure_loaded t) = Some d"
    and "depth (recursive (patterns d)) < maxDepth (recursive (patterns d))"
  shows "increase_recursive_depth t =
    Inr (save_state ((ensure_loaded t)\<lparr>state_data := Some (d\<lparr>patterns := (patterns d)\<lparr>recursive :=
      (recursive (patterns d))\<lparr>depth := depth (recursive (patterns d)) + 1\<rparr>\<rparr>\<rparr>)\<rparr>))"
  using assms by (simp add: increase_recursive_depth_def Let_def)

lemma increase_at_ceiling:
  assumes "state_data (ensure_loaded t) = Some d"
    and "\<not> depth (recursive (patterns d)) < maxDepth (recursive (patterns d))"
  shows "increase_recursive_depth t = Inr (False, ensure_loaded t)"
  using assms by (simp add: increase_recursive_depth_def Let_def)

lemma increase_n_climb:
  assumes "state_data (ensure_loaded t) = Some d"
    and "depth (recursive (patterns d)) = int j"
    and "maxDepth (recursive (patterns d)) = int (j + n)"
  shows "\<exists>oks tn dn. increase_n n t = Inr (oks, tn) \<and> length oks = n \<and>
           (on_write t = WriteOk \<longrightarrow> oks = replicate n True) \<and>
           state_data (ensure_loaded tn) = Some dn \<and>
           depth (recursive (patterns dn)) = int (j + n) \<and>
           maxDepth (recursive (patterns dn)) = int (j + n) \<and>
           increase_n (Suc n) t = Inr (oks @ [False], ensure_loaded tn)"
  using assms
proof (induction n arbitrary: t d j)
  case 0
  then have "increase_recursive_depth t = Inr (False, ensure_loaded t)"
    by (simp add: increase_at_ceiling)
  with 0 show ?case by simp
next
  case (Suc n)
  let ?d1 = "d\<lparr>patterns := (patterns d)\<lparr>recursive :=
      (recursive (patterns d))\<lparr>depth := depth (recursive (patterns d)) + 1\<rparr>\<rparr>\<rparr>"
  let ?s = "save_state ((ensure_loaded t)\<lparr>state_data := Some ?d1\<rparr>)"
  have step: "increase_recursive_depth t = Inr (fst ?s, snd ?s)"
    using Suc.prems by (simp add: increase_below)
  have sd: "state_data (snd ?s) = Some ?d1"
    by (simp add: save_state_state_data)
  then have l: "state_data (ensure_loaded (snd ?s)) = Some ?d1"
    by (simp add: ensure_loaded_loaded)
  have ow: "on_write (snd ?s) = on_write t"
    by (simp add: save_state_on_write ensure_loaded_on_write)
  have "depth (recursive (patterns ?d1)) = int (Suc j)"
    and "maxDepth (recursive (patterns ?d1)) = int (Suc j + n)"
    using Suc.prems by simp_all
  from Suc.IH [OF l this] obtain oks tn dn where
    r: "increase_n n (snd ?s) = Inr (oks, tn)" "length oks = n"
      "on_write (snd ?s) = WriteOk \<longrightarrow> oks = replicate n True"
      "state_data (ensure_loaded tn) = Some dn"
      "depth (recursive (patterns dn)) = int (Suc j + n)"
      "maxDepth (recursive (patterns dn)) = int (Suc j + n)"
      "increase_n (Suc n) (snd ?s) = Inr (oks @ [False], ensure_loaded tn)"
    by blast
  have a: "increase_n (Suc n) t = Inr (fst ?s # oks, tn)"
    by (simp only: increase_n.simps(2) [of n t] step r(1) sum.case prod.case)
  have b: "increase_n (Suc (Suc n)) t = Inr ((fst ?s # oks) @ [False], ensure_loaded tn)"
    by (simp only: increase_n.simps(2) [of "Suc n" t] step r(7) sum.case prod.case append_Cons)
  have c: "on_write t = WriteOk \<longrightarrow> fst ?s # oks = replicate (Suc n) True"
    using r(3) ow by (simp add: save_state_fst ensure_loaded_on_write)
  have "length (fst ?s # oks) = Suc n" "depth (recursive (patterns dn)) = int (j + Suc n)"
    "maxDepth (recursive (patterns dn)) = int (j + Suc n)"
    using r(2,5,6) by simp_all
  with a b c r(4) show ?case
    by blast
qed

text \<open>
  Claim C3. A call of \<open>increase_recursive_depth\<close> on a document whose depth is not above
  its ceiling returns with a document of which the same holds, the ceiling unchanged.
  From depth \<open>0\<close> with ceiling \<open>m\<close>, the first \<open>m\<close> calls of
  \<open>increase_recursive_depth\<close> bring the depth to \<open>m\<close>, each returning what its write
  returns (all \<open>True\<close> on a working disk); call \<open>m + 1\<close> returns \<open>False\<close>, and what it
  leaves is the tracker it found (loaded, if it was not): document and file untouched.
\<close>

theorem increase_recursive_depth_ceiling:
  assumes "state_data (ensure_loaded t) = Some d"
  shows "(depth (recursive (patterns d)) \<le> maxDepth (recursive (patterns d)) \<longrightarrow>
            (\<exists>ok t1. increase_recursive_depth t = Inr (ok, t1) \<and>
               (\<exists>d1. state_data t1 = Some d1 \<and>
                  depth (recursive (patterns d1)) \<le> maxDepth (recursive (patterns d1)) \<and>
                  maxDepth (recursive (patterns d1)) = maxDepth (recursive (patterns d))))) \<and>
         (depth (recursive (patterns d)) = 0 \<and> maxDepth (recursive (patterns d)) = int m \<longrightarrow>
            (\<exists>oks tm dm. increase_n m t = Inr (oks, tm) \<and> length oks = m \<and>
               (on_write t = WriteOk \<longrightarrow> oks = replicate m True) \<and>
               state_data (ensure_loaded tm) = Some dm \<and>
               depth (recursive (patterns dm)) = int m \<and>
               maxDepth (recursive (patterns dm)) = int m \<and>
               increase_recursive_depth tm = Inr (False, ensure_loaded tm) \<and>
               disk_file (ensure_loaded tm) = disk_file tm \<and>
               increase_n (Suc m) t = Inr (oks @ [False], ensure_loaded tm)))"
proof (intro conjI impI)
  assume le: "depth (recursive (patterns d)) \<le> maxDepth (recursive (patterns d))"
  show "\<exists>ok t1. increase_recursive_depth t = Inr (ok, t1) \<and>
          (\<exists>d1. state_data t1 = Some d1 \<and>
             depth (recursive (patterns d1)) \<le> maxDepth (recursive (patterns d1)) \<and>
             maxDepth (recursive (patterns d1)) = maxDepth (recursive (patterns d)))"
  proof (cases "depth (recursive (patterns d)) < maxDepth (recursive (patterns d))")
    case True
    show ?thesis
      unfolding increase_below [OF assms True]
      using True by (intro returns_pair) (simp add: save_state_state_data)
  next
    case False
    show ?thesis
      unfolding increase_at_ceiling [OF assms False]
      using le assms by (intro exI [of _ False] exI [of _ "ensure_loaded t"]) simp
  qed
next
  assume a: "depth (recursive (patterns d)) = 0 \<and> maxDepth (recursive (patterns d)) = int m"
  from increase_n_climb [of t d 0 m] assms a obtain oks tm dm where
    r: "increase_n m t = Inr (oks, tm)" "length oks = m"
      "on_write t = WriteOk \<longrightarrow> oks = replicate m True"
      "state_data (ensure_loaded tm) = Some dm"
      "depth (recursive (patterns dm)) = int m"
      "maxDepth (recursive (patterns dm)) = int m"
      "increase_n (Suc m) t = Inr (oks @ [False], ensure_loaded tm)"
    by auto
  have last: "increase_recursive_depth tm = Inr (False, ensure_loaded tm)"
    using r(4,5,6) by (simp add: increase_at_ceiling)
  with r show "\<exists>oks tm dm. increase_n m t = Inr (oks, tm) \<and> length oks = m \<and>
               (on_write t = WriteOk \<longrightarrow> oks = replicate m True) \<and>
               state_data (ensure_loaded tm) = Some dm \<and>
               depth (recursive (patterns dm)) = int m \<and>
               maxDepth (recursive (patterns dm)) = int m \<and>
               increase_recursive_depth tm = Inr (False, ensure_loaded tm) \<and>
               disk_file (ensure_loaded tm) = disk_file tm \<and>
               increase_n (Suc m) t = Inr (oks @ [False], ensure_loaded tm)"
    by (simp add: ensure_loaded_disk_file)
qed

lemma fresh_loaded: "state_data (ensure_loaded fresh_tracker) = Some initial_document"
  by (simp add: ensure_loaded_def load_state_def fresh_tracker_def new_tracker_def
      initial_document_def split: prod.split)

lemma initial_document_fields:
  "state (currentState initial_document) = ''initialized''"
  "stateHistory initial_document = []"
  "emergent (patterns initial_document) = []"
  "depth (recursive (patterns initial_document)) = 0"
  "maxDepth (recursive (patterns initial_document)) = 5"
  by (simp_all add: initial_document_def create_initial_state_def utcnow_isoformat_def)

text \<open>The statement above at a tracker just built, moved to \<open>active\<close>.\<close>

theorem update_state_appends_one_entry_witness:
  "state_data (ensure_loaded fresh_tracker) = Some initial_document \<and>
   (\<exists>ok t1. update_state ''active'' ''ready'' fresh_tracker = Inr (ok, t1) \<and>
      (\<exists>d1 e. state_data t1 = Some d1 \<and>
         stateHistory d1 = [e] \<and>
         ev_state e = ''active'' \<and>
         event e = ''State transition: initialized'' @ arrow @ ''active (ready)'' \<and>
         state (currentState d1) = ''active''))"
  using fresh_loaded update_state_appends_one_entry [OF fresh_loaded, of "''active''" "''ready''"]
  by (simp add: initial_document_fields)

text \<open>
  Claim C1 as stated fails: the document starts in state \<open>initialized\<close>, and the one
  entry \<open>update_state\<close> appends carries \<open>active\<close>, not \<open>initialized\<close>.
\<close>

theorem update_state_previous_state_counterexample:
  "state_data (ensure_loaded fresh_tracker) = Some initial_document \<and>
   state (currentState initial_document) = ''initialized'' \<and>
   map_option (map ev_state \<circ> stateHistory)
     (document_after (update_state ''active'' [] fresh_tracker)) = Some [''active'']"
  by (simp add: update_state_loaded [OF fresh_loaded] add_state_event_loaded ensure_loaded_loaded
      fresh_loaded initial_document_fields save_state_state_data document_after_def
      case_prod_beta)

text \<open>The statement above at a tracker just built, kept in \<open>initialized\<close>.\<close>

theorem update_state_same_state_witness:
  "state_data (ensure_loaded fresh_tracker) = Some initial_document \<and>
   state (currentState initial_document) = ''initialized'' \<and>
   (\<exists>ok t1. update_state ''initialized'' [] fresh_tracker = Inr (ok, t1) \<and> ok \<and>
      (\<exists>d1 e. state_data t1 = Some d1 \<and>
         stateHistory d1 = [e] \<and>
         event e = ''State transition: initialized'' @ arrow @ ''initialized'' \<and>
         state (currentState d1) = ''initialized'' \<and>
         disk_file t1 = Stored d1))"
  using fresh_loaded
    update_state_same_state [OF fresh_loaded initial_document_fields(1), of "[]"]
  by (simp add: initial_document_fields fresh_tracker_def new_tracker_def)

text \<open>The statement above with a confidence of \<open>-2.5\<close>.\<close>

theorem detect_pattern_any_confidence_witness:
  "state_data (ensure_loaded fresh_tracker) = Some initial_document \<and>
   (\<exists>ok t1. detect_pattern ''anomaly'' ''out of range'' (- 2.5) fresh_tracker = Inr (ok, t1) \<and> ok \<and>
      (\<exists>d1 e. state_data t1 = Some d1 \<and>
         emergent (patterns d1) = [e] \<and>
         pe_confidence e = - 2.5 \<and>
         pe_type e = ''anomaly'' \<and>
         pe_description e = ''out of range'' \<and>
         recursiveDepth e = 0))"
  using fresh_loaded
    detect_pattern_any_confidence [OF fresh_loaded, of "''anomaly''" "''out of range''" "- 2.5"]
  by (simp add: initial_document_fields fresh_tracker_def new_tracker_def)

text \<open>The statement above at a tracker just built, whose ceiling is \<open>5\<close>.\<close>

theorem increase_recursive_depth_ceiling_witness:
  "state_data (ensure_loaded fresh_tracker) = Some initial_document \<and>
   depth (recursive (patterns initial_document)) = 0 \<and>
   maxDepth (recursive (patterns initial_document)) = int 5 \<and>
   (\<exists>ok t1. increase_recursive_depth fresh_tracker = Inr (ok, t1) \<and>
      (\<exists>d1. state_data t1 = Some d1 \<and>
         depth (recursive (patterns d1)) \<le> maxDepth (recursive (patterns d1)) \<and>
         maxDepth (recursive (patterns d1)) = 5)) \<and>
   (\<exists>oks tm dm. increase_n 5 fresh_tracker = Inr (oks, tm) \<and>
      oks = [True, True, True, True, True] \<and>
      state_data (ensure_loaded tm) = Some dm \<and>
      depth (recursive (patterns dm)) = 5 \<and>
      maxDepth (recursive (patterns dm)) = 5 \<and>
      increase_recursive_depth tm = Inr (False, ensure_loaded tm) \<and>
      disk_file (ensure_loaded tm) = disk_file tm \<and>
      increase_n (Suc 5) fresh_tracker = Inr (oks @ [False], ensure_loaded tm))"
proof -
  have z: "depth (recursive (patterns initial_document)) = 0"
    and m: "maxDepth (recursive (patterns initial_document)) = int 5"
    by (simp_all add: initial_document_fields)
  have le: "depth (recursive (patterns initial_document)) \<le>
      maxDepth (recursive (patterns initial_document))"
    by (simp add: initial_document_fields)
  have w: "on_write fresh_tracker = WriteOk"
    by (simp add: fresh_tracker_def new_tracker_def)
  have r: "replicate 5 True = [True, True, True, True, True]"
    by (simp add: numeral_eq_Suc)
  note c = increase_recursive_depth_ceiling [OF fresh_loaded, of 5]
  from c [THEN conjunct1, rule_format, OF le]
  have 1: "\<exists>ok t1. increase_recursive_depth fresh_tracker = Inr (ok, t1) \<and>
      (\<exists>d1. state_data t1 = Some d1 \<and>
         depth (recursive (patterns d1)) \<le> maxDepth (recursive (patterns d1)) \<and>
         maxDepth (recursive (patterns d1)) = 5)"
    by (simp add: initial_document_fields)
  from c [THEN conjunct2, rule_format, OF conjI [OF z m]]
  have 2: "\<exists>oks tm dm. increase_n 5 fresh_tracker = Inr (oks, tm) \<and>
      oks = [True, True, True, True, True] \<and>
      state_data (ensure_loaded tm) = Some dm \<and>
      depth (recursive (patterns dm)) = 5 \<and>
      maxDepth (recursive (patterns dm)) = 5 \<and>
      increase_recursive_depth tm = Inr (False, ensure_loaded tm) \<and>
      disk_file (ensure_loaded tm) = disk_file tm \<and>
      increase_n (Suc 5) fresh_tracker = Inr (oks @ [False], ensure_loaded tm)"
    by (simp add: w r)
  from fresh_loaded z m 1 2 show ?thesis
    by (intro conjI)
qed

lemma update_dimension_loaded:
  assumes "state_data (ensure_loaded t) = Some d"
  shows "update_dimension dimension key val t =
     (case dimensions d dimension of
        None \<Rightarrow> Inr (False, ensure_loaded t)
      | Some m \<Rightarrow>
          Inr (save_state ((ensure_loaded t)\<lparr>state_data := Some (d\<lparr>dimensions :=
            (dimensions d)(dimension \<mapsto> m(key \<mapsto> val))\<rparr>)\<rparr>)))"
  using assms by (simp add: update_dimension_def Let_def)

text \<open>
  Claim C4, as the code has it. \<open>update_dimension\<close> tests the name against the keys of
  the document's own \<open>dimensions\<close> mapping: a name that is not a key gives \<open>False\<close> with
  document and file untouched; a name that is a key has the entry written into its
  mapping and the document saved. Where the keys are the five predeclared names, the
  calls that store the value are exactly those for one of the five.
\<close>

theorem update_dimension_by_document_keys:
  assumes "state_data (ensure_loaded t) = Some d"
  shows "(dimension \<notin> dom (dimensions d) \<longrightarrow>
            update_dimension dimension key val t = Inr (False, ensure_loaded t) \<and>
            disk_file (ensure_loaded t) = disk_file t) \<and>
         (\<forall>m. dimensions d dimension = Some m \<longrightarrow>
            (\<exists>ok t1. update_dimension dimension key val t = Inr (ok, t1) \<and>
               ok = (on_write t = WriteOk) \<and>
               (\<exists>d1. state_data t1 = Some d1 \<and>
                  d1 = d\<lparr>dimensions := (dimensions d)(dimension \<mapsto> m(key \<mapsto> val))\<rparr> \<and>
                  disk_file t1 =
                    (case on_write t of
                       WriteOk \<Rightarrow> Stored d1
                     | OpenFails \<Rightarrow> disk_file t
                     | DumpFails \<Rightarrow> Unreadable)))) \<and>
         (dom (dimensions d) = predeclared_dimensions \<longrightarrow>
            (dimension \<in> predeclared_dimensions) =
            (\<exists>ok t1. update_dimension dimension key val t = Inr (ok, t1) \<and>
               ok = (on_write t = WriteOk) \<and>
               (\<exists>d1 m. state_data t1 = Some d1 \<and> dimensions d1 dimension = Some m \<and> m key = Some val)))"
proof (intro conjI impI allI)
  assume "dimension \<notin> dom (dimensions d)"
  then show "update_dimension dimension key val t = Inr (False, ensure_loaded t)"
    by (auto simp: update_dimension_loaded [OF assms] split: option.split)
next
  show "disk_file (ensure_loaded t) = disk_file t"
    by (rule ensure_loaded_disk_file)
next
  fix m assume "dimensions d dimension = Some m"
  then show "\<exists>ok t1. update_dimension dimension key val t = Inr (ok, t1) \<and>
               ok = (on_write t = WriteOk) \<and>
               (\<exists>d1. state_data t1 = Some d1 \<and>
                  d1 = d\<lparr>dimensions := (dimensions d)(dimension \<mapsto> m(key \<mapsto> val))\<rparr> \<and>
                  disk_file t1 =
                    (case on_write t of
                       WriteOk \<Rightarrow> Stored d1
                     | OpenFails \<Rightarrow> disk_file t
                     | DumpFails \<Rightarrow> Unreadable))"
    unfolding update_dimension_loaded [OF assms]
    by (simp only: option.case, intro returns_pair)
      (simp add: save_state_state_data save_state_fst save_state_disk_file
        ensure_loaded_on_write ensure_loaded_disk_file split: write_outcome.split)
next
  assume k: "dom (dimensions d) = predeclared_dimensions"
  show "(dimension \<in> predeclared_dimensions) =
            (\<exists>ok t1. update_dimension dimension key val t = Inr (ok, t1) \<and>
               ok = (on_write t = WriteOk) \<and>
               (\<exists>d1 m. state_data t1 = Some d1 \<and> dimensions d1 dimension = Some m \<and> m key = Some val))"
  proof (cases "dimensions d dimension")
    case None
    then have "dimension \<notin> predeclared_dimensions"
      using k by auto
    moreover have "state_data (ensure_loaded t) = Some d" "dimensions d dimension = None"
      using assms None by simp_all
    ultimately show ?thesis
      by (simp add: update_dimension_loaded [OF assms] None)
  next
    case (Some m)
    then have "dimension \<in> predeclared_dimensions"
      using k by auto
    then show ?thesis
      by (simp add: update_dimension_loaded [OF assms] Some save_state_state_data
          save_state_fst ensure_loaded_on_write prod_eq_iff)
  qed
qed


lemma initial_dimensions:
  "dimensions (fst (create_initial_state t)) =
     [''temporal'' \<mapsto> Map.empty, ''spatial'' \<mapsto> Map.empty, ''conceptual'' \<mapsto> Map.empty,
      ''relational'' \<mapsto> Map.empty, ''ethical'' \<mapsto> Map.empty]"
  by (simp add: create_initial_state_def utcnow_isoformat_def)

lemma initial_dimensions_dom:
  "dom (dimensions (fst (create_initial_state t))) = predeclared_dimensions"
  unfolding initial_dimensions predeclared_dimensions_def by auto

lemma extended_loaded:
  "state_data (ensure_loaded (new_tracker (Stored extended_document) WriteOk sample_clock)) =
     Some extended_document"
  by (simp add: ensure_loaded_def load_state_def new_tracker_def)

text \<open>
  The statement above at a tracker just built: \<open>nonexistent\<close> is refused, \<open>temporal\<close> is
  written and saved.
\<close>

theorem update_dimension_by_document_keys_witness:
  "state_data (ensure_loaded fresh_tracker) = Some initial_document \<and>
   dom (dimensions initial_document) = predeclared_dimensions \<and>
   ''nonexistent'' \<notin> dom (dimensions initial_document) \<and>
   update_dimension ''nonexistent'' ''k'' (JInt 1) fresh_tracker =
     Inr (False, ensure_loaded fresh_tracker) \<and>
   disk_file (ensure_loaded fresh_tracker) = Missing \<and>
   dimensions initial_document ''temporal'' = Some Map.empty \<and>
   (\<exists>ok t1. update_dimension ''temporal'' ''k'' (JInt 1) fresh_tracker = Inr (ok, t1) \<and> ok \<and>
      (\<exists>d1. state_data t1 = Some d1 \<and>
         d1 = initial_document\<lparr>dimensions :=
                (dimensions initial_document)(''temporal'' \<mapsto> [''k'' \<mapsto> JInt 1])\<rparr> \<and>
         disk_file t1 = Stored d1))"
proof -
  have k: "dom (dimensions initial_document) = predeclared_dimensions"
    by (simp add: initial_document_def initial_dimensions_dom)
  have n: "''nonexistent'' \<notin> dom (dimensions initial_document)"
    by (simp add: k predeclared_dimensions_def)
  have m: "dimensions initial_document ''temporal'' = Some Map.empty"
    by (simp add: initial_document_def initial_dimensions)
  have w: "on_write fresh_tracker = WriteOk" "disk_file fresh_tracker = Missing"
    by (simp_all add: fresh_tracker_def new_tracker_def)
  note a = update_dimension_by_document_keys [OF fresh_loaded, of "''nonexistent''" "''k''" "JInt 1"]
  note b = update_dimension_by_document_keys [OF fresh_loaded, of "''temporal''" "''k''" "JInt 1"]
  from a [THEN conjunct1, rule_format, OF n]
  have 1: "update_dimension ''nonexistent'' ''k'' (JInt 1) fresh_tracker =
      Inr (False, ensure_loaded fresh_tracker)"
    and 2: "disk_file (ensure_loaded fresh_tracker) = Missing"
    by (simp_all add: w)
  from b [THEN conjunct2, THEN conjunct1, rule_format, OF m]
  have 3: "\<exists>ok t1. update_dimension ''temporal'' ''k'' (JInt 1) fresh_tracker = Inr (ok, t1) \<and> ok \<and>
      (\<exists>d1. state_data t1 = Some d1 \<and>
         d1 = initial_document\<lparr>dimensions :=
                (dimensions initial_document)(''temporal'' \<mapsto> [''k'' \<mapsto> JInt 1])\<rparr> \<and>
         disk_file t1 = Stored d1)"
    by (simp add: w)
  from fresh_loaded k n m 1 2 3 show ?thesis
    by (intro conjI)
qed

text \<open>
  Claim C4 as stated fails: on a state file whose \<open>dimensions\<close> has a sixth key
  \<open>custom\<close>, a write to \<open>custom\<close>, which is not one of the five names, succeeds.
\<close>

theorem update_dimension_predeclared_counterexample:
  "''custom'' \<notin> predeclared_dimensions \<and>
   returned (update_dimension ''custom'' ''k'' (JInt 1)
     (new_tracker (Stored extended_document) WriteOk sample_clock)) = Some True \<and>
   document_after (update_dimension ''custom'' ''k'' (JInt 1)
     (new_tracker (Stored extended_document) WriteOk sample_clock)) =
     Some (extended_document\<lparr>dimensions :=
       (dimensions extended_document)(''custom'' \<mapsto> [''k'' \<mapsto> JInt 1])\<rparr>)"
proof -
  have w: "on_write (new_tracker (Stored extended_document) WriteOk sample_clock) = WriteOk"
    by (simp add: new_tracker_def)
  have c: "dimensions extended_document ''custom'' = Some Map.empty"
    by (simp add: extended_document_def)
  show ?thesis
    by (simp add: predeclared_dimensions_def update_dimension_loaded [OF extended_loaded] c w
        save_state_state_data save_state_fst ensure_loaded_on_write case_prod_beta
        returned_def document_after_def)
qed

text \<open>
  No operation adds or removes a dimension name: the names a document has are those of
  the state file it came from, or the five predeclared ones if it began as the default
  document.
\<close>

lemma operations_keep_dimension_names:
  assumes "state_data (ensure_loaded t) = Some d"
  shows "\<exists>d1. document_after (add_state_event ev nts c t) = Some d1 \<and>
           dom (dimensions d1) = dom (dimensions d)"
    and "\<exists>d1. document_after (update_state new_state reason t) = Some d1 \<and>
           dom (dimensions d1) = dom (dimensions d)"
    and "\<exists>d1. document_after (detect_pattern pattern_type description confidence t) = Some d1 \<and>
           dom (dimensions d1) = dom (dimensions d)"
    and "\<exists>d1. document_after (increase_recursive_depth t) = Some d1 \<and>
           dom (dimensions d1) = dom (dimensions d)"
    and "\<exists>d1. document_after (update_dimension dimension key val t) = Some d1 \<and>
           dom (dimensions d1) = dom (dimensions d)"
proof -
  show "\<exists>d1. document_after (add_state_event ev nts c t) = Some d1 \<and>
           dom (dimensions d1) = dom (dimensions d)"
    unfolding add_state_event_loaded [OF assms]
    by (simp add: document_after_def case_prod_beta save_state_state_data)
  let ?d2 = "d\<lparr>currentState := (currentState d)\<lparr>state := new_state\<rparr>\<rparr>"
  let ?t2 = "(ensure_loaded t)\<lparr>state_data := Some ?d2\<rparr>"
  have l: "state_data (ensure_loaded ?t2) = Some ?d2"
    by (simp add: ensure_loaded_def)
  show "\<exists>d1. document_after (update_state new_state reason t) = Some d1 \<and>
           dom (dimensions d1) = dom (dimensions d)"
    unfolding update_state_loaded [OF assms] add_state_event_loaded [OF l]
    by (simp add: document_after_def case_prod_beta save_state_state_data)
  show "\<exists>d1. document_after (detect_pattern pattern_type description confidence t) = Some d1 \<and>
           dom (dimensions d1) = dom (dimensions d)"
    unfolding detect_pattern_loaded [OF assms]
    by (simp add: document_after_def case_prod_beta save_state_state_data)
  show "\<exists>d1. document_after (increase_recursive_depth t) = Some d1 \<and>
           dom (dimensions d1) = dom (dimensions d)"
  proof (cases "depth (recursive (patterns d)) < maxDepth (recursive (patterns d))")
    case True
    show ?thesis
      unfolding increase_below [OF assms True]
      by (simp add: document_after_def case_prod_beta save_state_state_data)
  next
    case False
    show ?thesis
      unfolding increase_at_ceiling [OF assms False]
      by (simp add: document_after_def assms)
  qed
  show "\<exists>d1. document_after (update_dimension dimension key val t) = Some d1 \<and>
           dom (dimensions d1) = dom (dimensions d)"
  proof (cases "dimensions d dimension")
    case None
    then show ?thesis
      by (simp add: update_dimension_loaded [OF assms] document_after_def assms)
  next
    case (Some m)
    show ?thesis
      unfolding update_dimension_loaded [OF assms] Some option.case
      using Some by (auto simp: document_after_def case_prod_beta save_state_state_data)
  qed
qed

lemma load_state_missing:
  "disk_file t = Missing \<Longrightarrow>
     load_state t = (True, (snd (create_initial_state t))\<lparr>state_data := Some (fst (create_initial_state t))\<rparr>)"
  by (simp add: load_state_def split: prod.split)

text \<open>
  Claim C5. With no state file and a working disk, \<open>load_state\<close> builds the default
  document (state \<open>initialized\<close>, no history, no emergent patterns, the five dimensions,
  each empty) without writing it; \<open>save_state\<close> writes it; a second \<open>load_state\<close> reads
  back the same document.
\<close>

theorem load_save_load:
  assumes "disk_file t = Missing" and "on_write t = WriteOk"
  shows "\<exists>d t1 t2 t3. load_state t = (True, t1) \<and> save_state t1 = (True, t2) \<and>
           load_state t2 = (True, t3) \<and>
           state_data t1 = Some d \<and> state_data t3 = Some d \<and>
           disk_file t1 = Missing \<and> disk_file t2 = Stored d \<and>
           state (currentState d) = ''initialized'' \<and>
           stateHistory d = [] \<and> emergent (patterns d) = [] \<and>
           dom (dimensions d) = predeclared_dimensions \<and>
           list_all (\<lambda>k. dimensions d k = Some Map.empty)
             [''temporal'', ''spatial'', ''conceptual'', ''relational'', ''ethical'']"
proof -
  let ?d = "fst (create_initial_state t)"
  let ?t1 = "(snd (create_initial_state t))\<lparr>state_data := Some ?d\<rparr>"
  let ?t2 = "?t1\<lparr>disk_file := Stored ?d\<rparr>"
  have e: "on_write (snd (create_initial_state t)) = WriteOk"
    "disk_file (snd (create_initial_state t)) = Missing"
    using assms by (simp_all add: create_initial_state_def utcnow_isoformat_def)
  have 1: "load_state t = (True, ?t1)"
    using assms(1) by (rule load_state_missing)
  have 2: "save_state ?t1 = (True, ?t2)"
    by (simp add: save_state_def e)
  have 3: "load_state ?t2 = (True, ?t2)"
    by (simp add: load_state_def)
  have 4: "state (currentState ?d) = ''initialized''" "stateHistory ?d = []"
    "emergent (patterns ?d) = []"
    by (simp_all add: create_initial_state_def utcnow_isoformat_def)
  have 5: "list_all (\<lambda>k. dimensions ?d k = Some Map.empty)
             [''temporal'', ''spatial'', ''conceptual'', ''relational'', ''ethical'']"
    by (simp add: initial_dimensions)
  have 6: "state_data ?t1 = Some ?d" "state_data ?t2 = Some ?d" "disk_file ?t1 = Missing"
    "disk_file ?t2 = Stored ?d"
    by (simp_all add: e)
  from 1 2 3 4 5 6 initial_dimensions_dom [of t] show ?thesis
    by blast
qed

text \<open>The statement above at a tracker just built.\<close>

theorem load_save_load_witness:
  "disk_file fresh_tracker = Missing \<and> on_write fresh_tracker = WriteOk \<and>
   (\<exists>t1 t2 t3. load_state fresh_tracker = (True, t1) \<and> save_state t1 = (True, t2) \<and>
      load_state t2 = (True, t3) \<and>
      state_data t1 = Some initial_document \<and> state_data t3 = Some initial_document \<and>
      disk_file t2 = Stored initial_document)"
proof -
  have w: "disk_file fresh_tracker = Missing" "on_write fresh_tracker = WriteOk"
    by (simp_all add: fresh_tracker_def new_tracker_def)
  have "fst (load_state fresh_tracker) = True"
    "state_data (snd (load_state fresh_tracker)) = Some initial_document"
    by (simp_all add: load_state_def w initial_document_def split: prod.split)
  with w load_save_load [OF w] show ?thesis
    by (elim exE conjE) simp
qed

lemma keeps_entries_saved:
  assumes "prefix (stateHistory d) (stateHistory d1)"
    and "prefix (emergent (patterns d)) (emergent (patterns d1))"
    and "state_data t = Some d1"
  shows "keeps_entries d (Inr (save_state t))"
  using assms by (simp add: keeps_entries_def case_prod_beta save_state_state_data)

text \<open>
  Claim C6. Each of the five operations, on any document the tracker works on, returns
  with a document whose \<open>stateHistory\<close> and \<open>patterns.emergent\<close> begin with the entries
  that were there before the call, in the same order.
\<close>

theorem histories_append_only:
  assumes "state_data (ensure_loaded t) = Some d"
  shows "keeps_entries d (add_state_event ev nts c t) \<and>
         keeps_entries d (update_state new_state reason t) \<and>
         keeps_entries d (detect_pattern pattern_type description confidence t) \<and>
         keeps_entries d (increase_recursive_depth t) \<and>
         keeps_entries d (update_dimension dimension key val t)"
proof (intro conjI)
  show "keeps_entries d (add_state_event ev nts c t)"
    unfolding add_state_event_loaded [OF assms]
    by (rule keeps_entries_saved) simp_all
next
  let ?d2 = "d\<lparr>currentState := (currentState d)\<lparr>state := new_state\<rparr>\<rparr>"
  let ?t2 = "(ensure_loaded t)\<lparr>state_data := Some ?d2\<rparr>"
  have l: "state_data (ensure_loaded ?t2) = Some ?d2"
    by (simp add: ensure_loaded_def)
  show "keeps_entries d (update_state new_state reason t)"
    unfolding update_state_loaded [OF assms] add_state_event_loaded [OF l]
    by (rule keeps_entries_saved) simp_all
next
  show "keeps_entries d (detect_pattern pattern_type description confidence t)"
    unfolding detect_pattern_loaded [OF assms]
    by (rule keeps_entries_saved) simp_all
next
  show "keeps_entries d (increase_recursive_depth t)"
  proof (cases "depth (recursive (patterns d)) < maxDepth (recursive (patterns d))")
    case True
    show ?thesis
      unfolding increase_below [OF assms True]
      by (rule keeps_entries_saved) simp_all
  next
    case False
    show ?thesis
      unfolding increase_at_ceiling [OF assms False]
      by (simp add: keeps_entries_def assms)
  qed
next
  show "keeps_entries d (update_dimension dimension key val t)"
  proof (cases "dimensions d dimension")
    case None
    then show ?thesis
      by (simp add: update_dimension_loaded [OF assms] keeps_entries_def assms)
  next
    case (Some m)
    show ?thesis
      unfolding update_dimension_loaded [OF assms] Some option.case
      by (rule keeps_entries_saved) simp_all
  qed
qed

lemma seasoned_loaded: "state_data (ensure_loaded seasoned_tracker) = Some seasoned_document"
  by (simp add: ensure_loaded_def load_state_def seasoned_tracker_def new_tracker_def)

lemma seasoned_entries:
  "map event (stateHistory seasoned_document) =
     [''created'', ''State transition: initialized'' @ arrow @ ''active'']"
  "map pe_type (emergent (patterns seasoned_document)) = [''growth'']"
  "state (currentState seasoned_document) = ''active''"
  "depth (recursive (patterns seasoned_document)) = 1"
  "maxDepth (recursive (patterns seasoned_document)) = 5"
  by (simp_all add: seasoned_document_def)

text \<open>
  The statement above at a tracker beside a state file in use: after each operation the
  two earlier events and the earlier pattern are still there, in order, in front of what
  the operation added. An outcome that empties the history, or reverses it, does not
  keep the entries.
\<close>

theorem histories_append_only_witness:
  "state_data (ensure_loaded seasoned_tracker) = Some seasoned_document \<and>
   map event (stateHistory seasoned_document) =
     [''created'', ''State transition: initialized'' @ arrow @ ''active''] \<and>
   map pe_type (emergent (patterns seasoned_document)) = [''growth''] \<and>
   keeps_entries seasoned_document (add_state_event ''checked'' ''second run'' True seasoned_tracker) \<and>
   keeps_entries seasoned_document (update_state ''paused'' [] seasoned_tracker) \<and>
   keeps_entries seasoned_document (detect_pattern ''decay'' ''fewer files'' 0.25 seasoned_tracker) \<and>
   keeps_entries seasoned_document (increase_recursive_depth seasoned_tracker) \<and>
   keeps_entries seasoned_document (update_dimension ''ethical'' ''k'' JNull seasoned_tracker) \<and>
   map_option (map event \<circ> stateHistory)
     (document_after (add_state_event ''checked'' ''second run'' True seasoned_tracker)) =
     Some [''created'', ''State transition: initialized'' @ arrow @ ''active'', ''checked''] \<and>
   map_option (map event \<circ> stateHistory)
     (document_after (update_state ''paused'' [] seasoned_tracker)) =
     Some [''created'', ''State transition: initialized'' @ arrow @ ''active'',
           ''State transition: active'' @ arrow @ ''paused''] \<and>
   map_option (map pe_type \<circ> emergent \<circ> patterns)
     (document_after (detect_pattern ''decay'' ''fewer files'' 0.25 seasoned_tracker)) =
     Some [''growth'', ''decay''] \<and>
   \<not> keeps_entries seasoned_document
       (Inr (True, seasoned_tracker\<lparr>state_data := Some initial_document\<rparr>)) \<and>
   \<not> keeps_entries seasoned_document
       (Inr (True, seasoned_tracker\<lparr>state_data :=
          Some (seasoned_document\<lparr>stateHistory := rev (stateHistory seasoned_document)\<rparr>)\<rparr>))"
proof -
  note k = histories_append_only [OF seasoned_loaded]
  let ?t2 = "(ensure_loaded seasoned_tracker)\<lparr>state_data :=
      Some (seasoned_document\<lparr>currentState := (currentState seasoned_document)\<lparr>state := ''paused''\<rparr>\<rparr>)\<rparr>"
  have l: "state_data (ensure_loaded ?t2) =
      Some (seasoned_document\<lparr>currentState := (currentState seasoned_document)\<lparr>state := ''paused''\<rparr>\<rparr>)"
    by (simp add: ensure_loaded_def)
  have 1: "map_option (map event \<circ> stateHistory)
     (document_after (add_state_event ''checked'' ''second run'' True seasoned_tracker)) =
     Some [''created'', ''State transition: initialized'' @ arrow @ ''active'', ''checked'']"
    by (simp add: add_state_event_loaded [OF seasoned_loaded] document_after_def case_prod_beta
        save_state_state_data seasoned_entries)
  have 2: "map_option (map event \<circ> stateHistory)
     (document_after (update_state ''paused'' [] seasoned_tracker)) =
     Some [''created'', ''State transition: initialized'' @ arrow @ ''active'',
           ''State transition: active'' @ arrow @ ''paused'']"
    unfolding update_state_loaded [OF seasoned_loaded] add_state_event_loaded [OF l]
    by (simp add: document_after_def case_prod_beta save_state_state_data seasoned_entries)
  have 3: "map_option (map pe_type \<circ> emergent \<circ> patterns)
     (document_after (detect_pattern ''decay'' ''fewer files'' 0.25 seasoned_tracker)) =
     Some [''growth'', ''decay'']"
    by (simp add: detect_pattern_loaded [OF seasoned_loaded] document_after_def case_prod_beta
        save_state_state_data seasoned_entries)
  have 4: "\<not> keeps_entries seasoned_document
       (Inr (True, seasoned_tracker\<lparr>state_data := Some initial_document\<rparr>))"
    by (simp add: keeps_entries_def initial_document_fields seasoned_document_def)
  have 5: "\<not> keeps_entries seasoned_document
       (Inr (True, seasoned_tracker\<lparr>state_data :=
          Some (seasoned_document\<lparr>stateHistory := rev (stateHistory seasoned_document)\<rparr>)\<rparr>))"
    by (simp add: keeps_entries_def seasoned_document_def)
  from seasoned_loaded seasoned_entries(1,2) k 1 2 3 4 5 show ?thesis
    by (intro conjI) simp_all
qed





section \<open>Properties of the pattern analyzer\<close>

lemma scenario_lines:
  "output_lines scenario_log =
     [''a1|alice|alice@example.org|1700000004|fix bug now'',
      ''b2|bob|bob@example.org|1700000003|add feature now'',
      ''c3|alice|alice@example.org|1700000002|now refine logic'',
      ''d4|bob|bob@example.org|1700000001|now cleanup'']"
  by code_simp

lemma scenario_parsed: "parse_commits (output_lines scenario_log) = Some scenario_commits"
  by code_simp

lemma words_of_messages:
  "py_split (lower ''fix bug now'') = [''fix'', ''bug'', ''now'']"
  "py_split (lower ''add feature now'') = [''add'', ''feature'', ''now'']"
  "py_split (lower ''now refine logic'') = [''now'', ''refine'', ''logic'']"
  "py_split (lower ''now cleanup'') = [''now'', ''cleanup'']"
  by code_simp+

lemma str_nat_small: "str_nat 4 = ''4''" "str_nat 2 = ''2''" "str_nat 1 = ''1''"
  by code_simp+


lemma keywords_of_scenario_messages:
  assumes "map message commits =
      [''fix bug now'', ''add feature now'', ''now refine logic'', ''now cleanup'']"
  shows "count_message_keywords commits =
      [(''feature'', 1), (''refine'', 1), (''logic'', 1), (''cleanup'', 1)]"
proof -
  from assms obtain c1 c2 c3 c4 where cs: "commits = [c1, c2, c3, c4]"
    and ms: "message c1 = ''fix bug now''" "message c2 = ''add feature now''"
      "message c3 = ''now refine logic''" "message c4 = ''now cleanup''"
    by (auto simp: map_eq_Cons_conv)
  show ?thesis
    by (simp add: cs count_message_keywords_def ms words_of_messages)
qed

lemma top_of_scenario_keywords:
  assumes "count_message_keywords commits =
      [(''feature'', 1), (''refine'', 1), (''logic'', 1), (''cleanup'', 1)]"
  shows "top_keywords commits =
      [(''feature'', 1), (''refine'', 1), (''logic'', 1), (''cleanup'', 1)]"
  by (simp add: top_keywords_def assms sorted_desc_def)

lemma commit_level_scenario:
  assumes "map message commits =
      [''fix bug now'', ''add feature now'', ''now refine logic'', ''now cleanup'']"
    and "length (remdups (map author commits)) = 2"
  shows "commit_level_patterns commits d =
      [\<lparr>p_type = ''commit_frequency'', p_description = ''Repository has 4 commits'',
        p_depth = d, p_confidence = 1\<rparr>,
       \<lparr>p_type = ''author_diversity'', p_description = ''2 unique author(s) detected'',
        p_depth = d, p_confidence = 1\<rparr>,
       \<lparr>p_type = ''message_patterns'',
        p_description = ''Top keywords: feature, refine, logic, cleanup'',
        p_depth = d, p_confidence = 8 / 10\<rparr>]"
proof -
  have n: "length commits = 4"
    using arg_cong [OF assms(1), of length] by simp
  then have ne: "commits \<noteq> []"
    by auto
  note k = keywords_of_scenario_messages [OF assms(1)]
  show ?thesis
    by (simp add: commit_level_patterns_def n ne assms(2) k top_of_scenario_keywords [OF k]
        str_nat_small)
qed

text \<open>
  Claim C8, as the code has it. For a repository whose \<open>git log\<close> parses to four commits
  by two distinct authors with the messages \<open>fix bug now\<close>, \<open>add feature now\<close>,
  \<open>now refine logic\<close>, \<open>now cleanup\<close> in that order, and \<open>max_depth = 2\<close>, the commit
  analysis gives, at depth 0, \<open>Repository has 4 commits\<close>, \<open>2 unique author(s) detected\<close>
  and \<open>Top keywords: feature, refine, logic, cleanup\<close>, then the same three at depth 1.
  The top keyword is \<open>feature\<close>: \<open>now\<close> has three characters, and only words of more
  than three are counted.
\<close>

theorem commit_patterns_scenario:
  assumes "git_log r = Some out"
    and "parse_commits (output_lines out) = Some commits"
    and "map message commits =
      [''fix bug now'', ''add feature now'', ''now refine logic'', ''now cleanup'']"
    and "length (remdups (map author commits)) = 2"
  shows "analyze_commit_patterns r 2 0 =
      [\<lparr>p_type = ''commit_frequency'', p_description = ''Repository has 4 commits'',
        p_depth = 0, p_confidence = 1\<rparr>,
       \<lparr>p_type = ''author_diversity'', p_description = ''2 unique author(s) detected'',
        p_depth = 0, p_confidence = 1\<rparr>,
       \<lparr>p_type = ''message_patterns'',
        p_description = ''Top keywords: feature, refine, logic, cleanup'',
        p_depth = 0, p_confidence = 8 / 10\<rparr>,
       \<lparr>p_type = ''commit_frequency'', p_description = ''Repository has 4 commits'',
        p_depth = 1, p_confidence = 1\<rparr>,
       \<lparr>p_type = ''author_diversity'', p_description = ''2 unique author(s) detected'',
        p_depth = 1, p_confidence = 1\<rparr>,
       \<lparr>p_type = ''message_patterns'',
        p_description = ''Top keywords: feature, refine, logic, cleanup'',
        p_depth = 1, p_confidence = 8 / 10\<rparr>] \<and>
     map fst (top_keywords commits) = [''feature'', ''refine'', ''logic'', ''cleanup'']"
proof -
  have 1: "analyze_commit_patterns r 2 1 = commit_level_patterns commits 1"
    by (subst analyze_commit_patterns.simps) (simp add: assms(1,2))
  have 0: "analyze_commit_patterns r 2 0 =
      commit_level_patterns commits 0 @ commit_level_patterns commits 1"
    by (subst analyze_commit_patterns.simps) (simp add: assms(1,2) 1)
  note k = keywords_of_scenario_messages [OF assms(3)]
  show ?thesis
    by (simp add: 0 commit_level_scenario [OF assms(3,4)] top_of_scenario_keywords [OF k])
qed

lemma scenario_facts:
  "git_log scenario_repo = Some scenario_log"
  "map message scenario_commits =
      [''fix bug now'', ''add feature now'', ''now refine logic'', ''now cleanup'']"
  "length (remdups (map author scenario_commits)) = 2"
  by (simp_all add: scenario_repo_def scenario_commits_def)

text \<open>The statement above at the sample repository.\<close>

theorem commit_patterns_scenario_witness:
  "git_log scenario_repo = Some scenario_log \<and>
   parse_commits (output_lines scenario_log) = Some scenario_commits \<and>
   map message scenario_commits =
      [''fix bug now'', ''add feature now'', ''now refine logic'', ''now cleanup''] \<and>
   length (remdups (map author scenario_commits)) = 2 \<and>
   map (\<lambda>p. (p_type p, p_description p, p_depth p)) (analyze_commit_patterns scenario_repo 2 0) =
      [(''commit_frequency'', ''Repository has 4 commits'', 0),
       (''author_diversity'', ''2 unique author(s) detected'', 0),
       (''message_patterns'', ''Top keywords: feature, refine, logic, cleanup'', 0),
       (''commit_frequency'', ''Repository has 4 commits'', 1),
       (''author_diversity'', ''2 unique author(s) detected'', 1),
       (''message_patterns'', ''Top keywords: feature, refine, logic, cleanup'', 1)]"
  using scenario_facts scenario_parsed
    commit_patterns_scenario [OF scenario_facts(1) scenario_parsed scenario_facts(2,3)]
  by simp

text \<open>
  Claim C8 as stated fails: at the sample repository the keyword observation lists
  \<open>feature\<close> first, and \<open>now\<close> is no keyword at all.
\<close>

theorem top_keyword_now_counterexample:
  "parse_commits (output_lines scenario_log) = Some scenario_commits \<and>
   map author scenario_commits = [''alice'', ''bob'', ''alice'', ''bob''] \<and>
   map message scenario_commits =
     [''fix bug now'', ''add feature now'', ''now refine logic'', ''now cleanup''] \<and>
   length ''now'' = 3 \<and>
   map fst (top_keywords scenario_commits) = [''feature'', ''refine'', ''logic'', ''cleanup''] \<and>
   ''now'' \<notin> set (map fst (count_message_keywords scenario_commits)) \<and>
   map p_description (commit_level_patterns scenario_commits 0) =
     [''Repository has 4 commits'', ''2 unique author(s) detected'',
      ''Top keywords: feature, refine, logic, cleanup'']"
proof -
  note k = keywords_of_scenario_messages [OF scenario_facts(2)]
  have "map author scenario_commits = [''alice'', ''bob'', ''alice'', ''bob'']"
    by (simp add: scenario_commits_def)
  then show ?thesis
    by (simp add: scenario_parsed scenario_facts(2) k top_of_scenario_keywords [OF k]
        commit_level_scenario [OF scenario_facts(2,3)])
qed

lemma commit_level_depth: "p \<in> set (commit_level_patterns commits d) \<Longrightarrow> p_depth p = d"
  by (auto simp: commit_level_patterns_def Let_def split: if_splits)

lemma analyze_commit_patterns_depth:
  "p \<in> set (analyze_commit_patterns r max_depth d) \<Longrightarrow> d \<le> p_depth p \<and> p_depth p < max_depth"
proof (induction r max_depth d rule: analyze_commit_patterns.induct)
  case (1 r max_depth d)
  note unfold = analyze_commit_patterns.simps [of r max_depth d]
  show ?case
  proof (cases "d \<ge> max_depth")
    case True
    with "1.prems" show ?thesis
      by (simp add: unfold)
  next
    case False
    show ?thesis
    proof (cases "git_log r")
      case None
      with "1.prems" False show ?thesis
        by (simp add: unfold)
    next
      case (Some out)
      show ?thesis
      proof (cases "parse_commits (output_lines out)")
        case None
        with "1.prems" False Some show ?thesis
          by (simp add: unfold)
      next
        case commits: (Some commits)
        from "1.prems" False Some commits have
          "p \<in> set (commit_level_patterns commits d) \<or>
           (d < max_depth - 1 \<and> p \<in> set (analyze_commit_patterns r max_depth (d + 1)))"
          by (simp add: unfold split: if_splits)
        then show ?thesis
        proof
          assume "p \<in> set (commit_level_patterns commits d)"
          with False show ?thesis
            by (simp add: commit_level_depth)
        next
          assume "d < max_depth - 1 \<and> p \<in> set (analyze_commit_patterns r max_depth (d + 1))"
          with "1.IH" [OF False Some commits] show ?thesis
            by simp
        qed
      qed
    qed
  qed
qed

lemma analyze_file_patterns_depth:
  "p \<in> set (analyze_file_patterns r max_depth d) \<Longrightarrow> p_depth p = d \<and> d < max_depth"
  by (auto simp: analyze_file_patterns_def Let_def split: if_splits option.splits)

lemma genesis_scan_depth: "p \<in> set (genesis_scan r gfiles) \<Longrightarrow> p_depth p = 0"
  by (induction gfiles) (auto split: open_result.splits)

lemma analyze_ethical_patterns_depth:
  "p \<in> set (analyze_ethical_patterns r) \<Longrightarrow> p_depth p = 0"
  by (auto simp: analyze_ethical_patterns_def Let_def simp del: genesis_scan.simps
      dest: genesis_scan_depth split: if_splits option.splits)

text \<open>
  Claim C2. For \<open>max_depth \<ge> 0\<close>, every pattern \<open>analyze_all\<close> returns has a depth below
  \<open>max_depth\<close>, or comes from the file or the ethical family with depth \<open>0\<close>, the depth
  \<open>analyze_all\<close> asks for, which is not above \<open>max_depth\<close>. No depth is negative.
\<close>

theorem analyze_all_depth_bound:
  assumes "0 \<le> max_depth" and "p \<in> set (analyze_all r max_depth)"
  shows "(p_depth p < max_depth \<or>
          (p \<in> set (analyze_file_patterns r max_depth 0) \<union> set (analyze_ethical_patterns r) \<and>
           p_depth p = 0 \<and> p_depth p \<le> max_depth)) \<and>
         0 \<le> p_depth p"
proof -
  from assms(2) consider
    (a) "p \<in> set (analyze_commit_patterns r max_depth 0)"
    | (b) "p \<in> set (analyze_file_patterns r max_depth 0)"
    | (c) "p \<in> set (analyze_ethical_patterns r)"
    by (auto simp: analyze_all_def)
  then show ?thesis
  proof cases
    case a
    then show ?thesis
      by (simp add: analyze_commit_patterns_depth)
  next
    case b
    then show ?thesis
      using analyze_file_patterns_depth [OF b] by simp
  next
    case c
    then show ?thesis
      using analyze_ethical_patterns_depth [OF c] assms(1) by simp
  qed
qed

lemma ethical_of_scenario:
  "analyze_ethical_patterns scenario_repo =
     [\<lparr>p_type = ''ethical_documentation'',
       p_description = ''Documentation files present: 1'', p_depth = 0, p_confidence = 9 / 10\<rparr>,
      \<lparr>p_type = ''ethical_framework'',
       p_description = ''Genesis framework file found: genesis.json'', p_depth = 0,
       p_confidence = 1\<rparr>]"
proof -
  have "filter (\<lambda>f. f \<noteq> []) (output_lines (''README.md'' @ [CHR 0x0A])) = [''README.md'']"
    by code_simp
  moreover have "str_nat (Suc 0) = ''1''"
    by code_simp
  ultimately show ?thesis
    by (simp add: analyze_ethical_patterns_def scenario_repo_def)
qed

text \<open>
  The statement above at the sample repository with \<open>max_depth = 0\<close>: only the ethical
  family reports, at depth \<open>0\<close>.
\<close>

theorem analyze_all_depth_bound_witness:
  "(0::int) \<le> 0 \<and>
   analyze_all scenario_repo 0 =
     [\<lparr>p_type = ''ethical_documentation'',
       p_description = ''Documentation files present: 1'', p_depth = 0, p_confidence = 9 / 10\<rparr>,
      \<lparr>p_type = ''ethical_framework'',
       p_description = ''Genesis framework file found: genesis.json'', p_depth = 0,
       p_confidence = 1\<rparr>] \<and>
   p_depth \<lparr>p_type = ''ethical_framework'',
       p_description = ''Genesis framework file found: genesis.json'', p_depth = 0,
       p_confidence = 1\<rparr> = 0 \<and>
   \<lparr>p_type = ''ethical_framework'',
       p_description = ''Genesis framework file found: genesis.json'', p_depth = 0,
       p_confidence = 1\<rparr> \<in> set (analyze_ethical_patterns scenario_repo)"
proof -
  let ?p = "\<lparr>p_type = ''ethical_framework'',
       p_description = ''Genesis framework file found: genesis.json'', p_depth = 0,
       p_confidence = 1\<rparr>"
  have a: "analyze_all scenario_repo 0 = analyze_ethical_patterns scenario_repo"
    by (simp add: analyze_all_def analyze_commit_patterns.simps [of _ 0 0]
        analyze_file_patterns_def)
  have m: "?p \<in> set (analyze_all scenario_repo 0)"
    by (simp add: a ethical_of_scenario)
  have z: "(0::int) \<le> 0"
    by simp
  from analyze_all_depth_bound [OF z m] a ethical_of_scenario show ?thesis
    by simp
qed

end
